theory Spec2Isabelle
  imports Main "HOL-Library.Multiset"
begin

section \<open>Data model\<close>

text \<open>
  The store is the SQLite database behind \<^verbatim>\<open>Database\<close>: the table \<^verbatim>\<open>tasks\<close> and the table
  \<^verbatim>\<open>sync_queue\<close>, each a list of rows in storage order. Instants (ISO strings in the
  source, compared as instants) are integers: milliseconds since the epoch.
\<close>

datatype sync_status = Pending | Synced | Error

datatype operation = Create | Update | Delete

text \<open>A JavaScript \<^verbatim>\<open>Date\<close>: a time value, or the invalid date whose \<^verbatim>\<open>getTime()\<close> is NaN.\<close>

datatype js_date = Instant int | InvalidDate

text \<open>The interface \<^verbatim>\<open>Task\<close>, with the fields \<^verbatim>\<open>createTask\<close> and \<^verbatim>\<open>rowToTask\<close> build.\<close>

record task =
  t_id :: string
  t_title :: string
  t_description :: string
  t_completed :: bool
  t_created_at :: js_date
  t_updated_at :: js_date
  t_is_deleted :: bool
  t_sync_status :: sync_status
  t_server_id :: "string option"
  t_last_synced_at :: "js_date option"

text \<open>
  \<^verbatim>\<open>Partial<Task>\<close>, and every JSON object over the keys of a task: \<open>None\<close> is an absent
  key.
\<close>

record partial_task =
  p_id :: "string option"
  p_title :: "string option"
  p_description :: "string option"
  p_completed :: "bool option"
  p_created_at :: "js_date option"
  p_updated_at :: "js_date option"
  p_is_deleted :: "bool option"
  p_sync_status :: "sync_status option"
  p_server_id :: "string option"
  p_last_synced_at :: "js_date option"

definition no_fields :: partial_task where
  "no_fields =
     \<lparr>p_id = None, p_title = None, p_description = None, p_completed = None,
      p_created_at = None, p_updated_at = None, p_is_deleted = None,
      p_sync_status = None, p_server_id = None, p_last_synced_at = None\<rparr>"

text \<open>
  \<^verbatim>\<open>JSON.stringify(task)\<close>: every key of the task whose value is not \<^verbatim>\<open>undefined\<close>.
\<close>

definition JSON_stringify_task :: "task \<Rightarrow> partial_task" where
  "JSON_stringify_task t =
     \<lparr>p_id = Some (t_id t), p_title = Some (t_title t),
      p_description = Some (t_description t), p_completed = Some (t_completed t),
      p_created_at = Some (t_created_at t), p_updated_at = Some (t_updated_at t),
      p_is_deleted = Some (t_is_deleted t), p_sync_status = Some (t_sync_status t),
      p_server_id = t_server_id t, p_last_synced_at = t_last_synced_at t\<rparr>"

text \<open>A row of the table \<^verbatim>\<open>tasks\<close>; \<open>None\<close> is SQL \<^verbatim>\<open>NULL\<close>.\<close>

record task_row =
  r_id :: string
  r_title :: string
  r_description :: string
  r_completed :: bool
  r_created_at :: int
  r_updated_at :: int
  r_is_deleted :: bool
  r_sync_status :: sync_status
  r_server_id :: "string option"
  r_last_synced_at :: "int option"

text \<open>A row of the table \<^verbatim>\<open>sync_queue\<close> (\<^verbatim>\<open>SyncQueueItem\<close>): one Mutation Log entry.\<close>

record queue_row =
  q_id :: string
  q_task_id :: string
  q_operation :: operation
  q_data :: partial_task
  q_created_at :: int
  q_retry_count :: int
  q_error_message :: "string option"

record store =
  tasks :: "task_row list"
  sync_queue :: "queue_row list"

section \<open>SQL statements of the source\<close>

text \<open>
  Each statement the source issues, on the store. A \<^verbatim>\<open>WHERE id = ?\<close> touches every row
  with that id; \<^verbatim>\<open>LIMIT 1\<close> takes the first one in storage order.
\<close>

definition insert_task :: "task_row \<Rightarrow> store \<Rightarrow> store" where
  "insert_task row s = s\<lparr>tasks := tasks s @ [row]\<rparr>"

text \<open>
  Modelled from the spec: the declaration of the table \<^verbatim>\<open>sync_queue\<close> (the database
  module is not among the sources). \<^verbatim>\<open>INSERT INTO sync_queue (id, task_id, operation, data)\<close>
  names four columns; the others take the table's defaults: the entry's creation
  timestamp is the instant of the insertion, its retry count starts at 0 and it has no
  error message.
\<close>

definition insert_sync_queue ::
  "int \<Rightarrow> string \<Rightarrow> string \<Rightarrow> operation \<Rightarrow> partial_task \<Rightarrow> store \<Rightarrow> store" where
  "insert_sync_queue inserted_at queueId taskId op payload s =
     s\<lparr>sync_queue := sync_queue s @
         [\<lparr>q_id = queueId, q_task_id = taskId, q_operation = op, q_data = payload,
           q_created_at = inserted_at, q_retry_count = 0, q_error_message = None\<rparr>]\<rparr>"

text \<open>\<^verbatim>\<open>SELECT * FROM tasks WHERE id = ? LIMIT 1\<close>\<close>

definition select_task :: "string \<Rightarrow> store \<Rightarrow> task_row option" where
  "select_task i s = find (\<lambda>r. r_id r = i) (tasks s)"

text \<open>\<^verbatim>\<open>UPDATE tasks SET ... WHERE id = ?\<close>, the assignment given as a function of the row.\<close>

definition update_tasks :: "string \<Rightarrow> (task_row \<Rightarrow> task_row) \<Rightarrow> store \<Rightarrow> store" where
  "update_tasks i f s = s\<lparr>tasks := map (\<lambda>r. if r_id r = i then f r else r) (tasks s)\<rparr>"

text \<open>\<^verbatim>\<open>UPDATE sync_queue SET retry_count = ?, error_message = ? WHERE id = ?\<close>\<close>

definition update_sync_queue :: "string \<Rightarrow> int \<Rightarrow> string \<Rightarrow> store \<Rightarrow> store" where
  "update_sync_queue i n msg s =
     s\<lparr>sync_queue :=
         map (\<lambda>q. if q_id q = i then q\<lparr>q_retry_count := n, q_error_message := Some msg\<rparr> else q)
           (sync_queue s)\<rparr>"

text \<open>\<^verbatim>\<open>DELETE FROM sync_queue WHERE task_id = ?\<close>\<close>

definition delete_sync_queue :: "string \<Rightarrow> store \<Rightarrow> store" where
  "delete_sync_queue taskId s =
     s\<lparr>sync_queue := filter (\<lambda>q. q_task_id q \<noteq> taskId) (sync_queue s)\<rparr>"

text \<open>
  \<^verbatim>\<open>SELECT * FROM sync_queue ORDER BY created_at ASC\<close>: the rows by ascending creation
  time. SQL leaves the order of rows of equal creation time open; here they stay in
  storage order.
\<close>

definition select_sync_queue :: "store \<Rightarrow> queue_row list" where
  "select_sync_queue s = sort_key q_created_at (sync_queue s)"

section \<open>TaskService\<close>

text \<open>
  What a mutating call of the service reads from outside: the clock (\<^verbatim>\<open>nowISO()\<close>), the
  two \<^verbatim>\<open>uuidv4()\<close> values, the instant at which the store inserts the queue row, and whether
  each of its two writes (\<^verbatim>\<open>db.run\<close>) is carried out or rejects (an I/O error, a violated
  constraint). Reads are taken to succeed.
\<close>

record svc_io =
  io_now :: int
  io_uuid :: string
  io_queue_uuid :: string
  io_queue_inserted_at :: int
  io_record_write_ok :: bool
  io_log_write_ok :: bool

datatype db_error = WriteFailed

definition rowToTask :: "task_row \<Rightarrow> task" where
  "rowToTask row =
     \<lparr>t_id = r_id row, t_title = r_title row, t_description = r_description row,
      t_completed = r_completed row,
      t_created_at = Instant (r_created_at row),
      t_updated_at = Instant (r_updated_at row),
      t_is_deleted = r_is_deleted row,
      t_sync_status = r_sync_status row,
      t_server_id = (case r_server_id row of
                       None \<Rightarrow> None
                     | Some x \<Rightarrow> if x = [] then None else Some x),
      t_last_synced_at = map_option Instant (r_last_synced_at row)\<rparr>"

definition getTask :: "string \<Rightarrow> store \<Rightarrow> task option" where
  "getTask i s =
     (case select_task i s of
        None \<Rightarrow> None
      | Some row \<Rightarrow> if r_is_deleted row then None else Some (rowToTask row))"

definition createTask :: "svc_io \<Rightarrow> partial_task \<Rightarrow> store \<Rightarrow> (db_error + task) \<times> store" where
  "createTask io taskData s =
     (let i = (case p_id taskData of
                 None \<Rightarrow> io_uuid io
               | Some x \<Rightarrow> if x = [] then io_uuid io else x);
          created_at = io_now io;
          updated_at = created_at;
          t = \<lparr>t_id = i,
               t_title = (case p_title taskData of None \<Rightarrow> ''Untitled'' | Some x \<Rightarrow> x),
               t_description = (case p_description taskData of None \<Rightarrow> [] | Some x \<Rightarrow> x),
               t_completed = (case p_completed taskData of None \<Rightarrow> False | Some x \<Rightarrow> x),
               t_created_at = Instant created_at,
               t_updated_at = Instant updated_at,
               t_is_deleted = False,
               t_sync_status = Pending,
               t_server_id = p_server_id taskData,
               t_last_synced_at = None\<rparr>
      in if \<not> io_record_write_ok io then (Inl WriteFailed, s)
         else
           let s1 = insert_task
                      \<lparr>r_id = t_id t, r_title = t_title t, r_description = t_description t,
                       r_completed = t_completed t, r_created_at = created_at,
                       r_updated_at = updated_at, r_is_deleted = False,
                       r_sync_status = Pending, r_server_id = t_server_id t,
                       r_last_synced_at = None\<rparr> s
           in if \<not> io_log_write_ok io then (Inl WriteFailed, s1)
              else (Inr t,
                    insert_sync_queue (io_queue_inserted_at io) (io_queue_uuid io) (t_id t)
                      Create (JSON_stringify_task t) s1))"

text \<open>The object spread \<^verbatim>\<open>{...existing, ...updates}\<close>: a key of \<open>updates\<close> wins.\<close>

definition spread_task :: "task \<Rightarrow> partial_task \<Rightarrow> task" where
  "spread_task existing updates =
     \<lparr>t_id = (case p_id updates of None \<Rightarrow> t_id existing | Some x \<Rightarrow> x),
      t_title = (case p_title updates of None \<Rightarrow> t_title existing | Some x \<Rightarrow> x),
      t_description =
        (case p_description updates of None \<Rightarrow> t_description existing | Some x \<Rightarrow> x),
      t_completed = (case p_completed updates of None \<Rightarrow> t_completed existing | Some x \<Rightarrow> x),
      t_created_at =
        (case p_created_at updates of None \<Rightarrow> t_created_at existing | Some x \<Rightarrow> x),
      t_updated_at =
        (case p_updated_at updates of None \<Rightarrow> t_updated_at existing | Some x \<Rightarrow> x),
      t_is_deleted =
        (case p_is_deleted updates of None \<Rightarrow> t_is_deleted existing | Some x \<Rightarrow> x),
      t_sync_status =
        (case p_sync_status updates of None \<Rightarrow> t_sync_status existing | Some x \<Rightarrow> x),
      t_server_id =
        (case p_server_id updates of None \<Rightarrow> t_server_id existing | Some x \<Rightarrow> Some x),
      t_last_synced_at =
        (case p_last_synced_at updates of
           None \<Rightarrow> t_last_synced_at existing
         | Some x \<Rightarrow> Some x)\<rparr>"

definition updateTask ::
  "svc_io \<Rightarrow> string \<Rightarrow> partial_task \<Rightarrow> store \<Rightarrow> (db_error + task option) \<times> store" where
  "updateTask io i updates s =
     (case getTask i s of
        None \<Rightarrow> (Inr None, s)
      | Some existing \<Rightarrow>
          let updatedAt = io_now io;
              updated = (spread_task existing updates)
                          \<lparr>t_updated_at := Instant updatedAt, t_sync_status := Pending\<rparr>
          in if \<not> io_record_write_ok io then (Inl WriteFailed, s)
             else
               let s1 = update_tasks i
                          (\<lambda>r. r\<lparr>r_title := t_title updated,
                                 r_description := t_description updated,
                                 r_completed := t_completed updated,
                                 r_updated_at := updatedAt,
                                 r_is_deleted := t_is_deleted updated,
                                 r_sync_status := Pending\<rparr>) s
               in if \<not> io_log_write_ok io then (Inl WriteFailed, s1)
                  else (Inr (Some updated),
                        insert_sync_queue (io_queue_inserted_at io) (io_queue_uuid io) i
                          Update updates s1))"

definition deleteTask :: "svc_io \<Rightarrow> string \<Rightarrow> store \<Rightarrow> (db_error + bool) \<times> store" where
  "deleteTask io i s =
     (case getTask i s of
        None \<Rightarrow> (Inr False, s)
      | Some existing \<Rightarrow>
          let updatedAt = io_now io
          in if \<not> io_record_write_ok io then (Inl WriteFailed, s)
             else
               let s1 = update_tasks i
                          (\<lambda>r. r\<lparr>r_is_deleted := True, r_updated_at := updatedAt,
                                 r_sync_status := Pending\<rparr>) s
               in if \<not> io_log_write_ok io then (Inl WriteFailed, s1)
                  else (Inr True,
                        insert_sync_queue (io_queue_inserted_at io) (io_queue_uuid io) i
                          Delete no_fields s1))"

text \<open>
  A sequence of calls of the service, each with what it reads from outside. The store
  after a call is the same whether the call returns or throws.
\<close>

datatype mutation =
  CreateTask partial_task
| UpdateTask string partial_task
| DeleteTask string

fun apply_mutation :: "store \<Rightarrow> svc_io \<times> mutation \<Rightarrow> store" where
  "apply_mutation s (io, CreateTask taskData) = snd (createTask io taskData s)"
| "apply_mutation s (io, UpdateTask i updates) = snd (updateTask io i updates s)"
| "apply_mutation s (io, DeleteTask i) = snd (deleteTask io i s)"

definition run_mutations :: "store \<Rightarrow> (svc_io \<times> mutation) list \<Rightarrow> store" where
  "run_mutations s ms = foldl apply_mutation s ms"

text \<open>The same call with both writes carried out.\<close>

definition writes_ok :: "svc_io \<Rightarrow> svc_io" where
  "writes_ok io = io\<lparr>io_record_write_ok := True, io_log_write_ok := True\<rparr>"

text \<open>
  What a call of two successive writes leaves behind, against the same call with both
  writes carried out (\<open>res_ok\<close>): nothing when the record write rejects; the record write
  alone when the append to the log rejects.
\<close>

definition two_writes ::
  "svc_io \<Rightarrow> (db_error + 'a) \<times> store \<Rightarrow> (db_error + 'a) \<times> store \<Rightarrow> store \<Rightarrow> bool" where
  "two_writes io res res_ok s =
     ((\<not> io_record_write_ok io \<longrightarrow> res = (Inl WriteFailed, s)) \<and>
      (io_record_write_ok io \<and> \<not> io_log_write_ok io \<longrightarrow>
         fst res = Inl WriteFailed \<and> tasks (snd res) = tasks (snd res_ok) \<and>
         sync_queue (snd res) = sync_queue s) \<and>
      (io_record_write_ok io \<and> io_log_write_ok io \<longrightarrow> res = res_ok))"

section \<open>SyncService\<close>

subsection \<open>Configuration\<close>

text \<open>
  The built-in \<^verbatim>\<open>parseInt(s, 10)\<close> is an input of the constructor below (\<open>None\<close> is NaN).
  \<open>parseInt_ascii\<close> is its value on the strings of ASCII characters whose run of digits
  is below \<open>2 ^ 53\<close>, where the double is exact: leading white space, an optional sign,
  then the longest run of decimal digits, NaN when there is no digit. It stands for the
  built-in in the example configurations only, on \<^verbatim>\<open>'10'\<close>, \<^verbatim>\<open>'3'\<close>, \<^verbatim>\<open>'0'\<close> and \<^verbatim>\<open>'abc'\<close>.
\<close>

definition is_space :: "char \<Rightarrow> bool" where
  "is_space c = (c \<in> set [CHR '' '', CHR 0x09, CHR 0x0A, CHR 0x0B, CHR 0x0C, CHR 0x0D])"

definition is_digit :: "char \<Rightarrow> bool" where
  "is_digit c = (c \<in> set ''0123456789'')"

definition digits_value :: "string \<Rightarrow> int" where
  "digits_value ds = foldl (\<lambda>a c. 10 * a + (int (of_char c) - 48)) 0 ds"

definition parseInt_ascii :: "string \<Rightarrow> int option" where
  "parseInt_ascii s =
     (let s1 = dropWhile is_space s;
          neg = (s1 \<noteq> [] \<and> hd s1 = CHR ''-'');
          s2 = (if s1 \<noteq> [] \<and> (hd s1 = CHR ''-'' \<or> hd s1 = CHR ''+'') then tl s1 else s1);
          ds = takeWhile is_digit s2
      in if ds = [] then None
         else Some (if neg then - digits_value ds else digits_value ds))"

text \<open>\<^verbatim>\<open>process.env\<close>: the three variables the constructor reads; \<open>None\<close> is unset.\<close>

record process_env =
  API_BASE_URL :: "string option"
  SYNC_BATCH_SIZE :: "string option"
  SYNC_MAX_RETRIES :: "string option"

record config =
  apiUrl :: string
  batchSize :: "int option"
  maxRetries :: "int option"

text \<open>\<^verbatim>\<open>a || b\<close> on an optional string: \<open>b\<close> when \<open>a\<close> is unset or empty.\<close>

definition or_else :: "string option \<Rightarrow> string \<Rightarrow> string" where
  "or_else a b = (case a of None \<Rightarrow> b | Some x \<Rightarrow> if x = [] then b else x)"

text \<open>
  The constructor; \<open>url\<close> is its optional third argument and \<open>parseInt\<close> the built-in
  \<^verbatim>\<open>parseInt(s, 10)\<close>.
\<close>

definition SyncService ::
  "(string \<Rightarrow> int option) \<Rightarrow> process_env \<Rightarrow> string option \<Rightarrow> config" where
  "SyncService parseInt env url =
     \<lparr>apiUrl = (case url of
                  None \<Rightarrow> or_else (API_BASE_URL env) ''http://localhost:3000/api''
                | Some u \<Rightarrow> u),
      batchSize = parseInt (or_else (SYNC_BATCH_SIZE env) ''10''),
      maxRetries = parseInt (or_else (SYNC_MAX_RETRIES env) ''3'')\<rparr>"

subsection \<open>Wire types\<close>

datatype item_status = StatusSuccess | StatusConflict | StatusError

text \<open>An element of \<^verbatim>\<open>processed_items\<close> in a \<^verbatim>\<open>BatchSyncResponse\<close>.\<close>

record processed_item =
  client_id :: string
  server_id :: "string option"
  status :: item_status
  resolved_data :: "partial_task option"
  error :: "string option"

record BatchSyncRequest =
  items :: "queue_row list"
  client_timestamp :: int

text \<open>An element of \<^verbatim>\<open>SyncResult['errors']\<close>.\<close>

record sync_error =
  e_task_id :: string
  e_operation :: string
  e_error :: string
  e_timestamp :: int

record SyncResult =
  success :: bool
  synced_items :: nat
  failed_items :: nat
  errors :: "sync_error list"

definition operation_name :: "operation \<Rightarrow> string" where
  "operation_name op = (case op of Create \<Rightarrow> ''create'' | Update \<Rightarrow> ''update'' | Delete \<Rightarrow> ''delete'')"

subsection \<open>The world of a run\<close>

text \<open>
  What a run of \<^verbatim>\<open>sync()\<close> reads from outside: \<open>clock k\<close> is the \<open>k\<close>-th reading of
  \<^verbatim>\<open>new Date()\<close> in the run, and \<open>peer k req\<close> is the outcome of the \<open>k\<close>-th \<^verbatim>\<open>axios.post\<close>
  of the run, with request \<open>req\<close>: \<open>Inr\<close> the \<^verbatim>\<open>processed_items\<close> of the response, \<open>Inl\<close> the
  message of the error thrown at the batch boundary (a transport error, a status that is
  not 2xx, a response without \<^verbatim>\<open>processed_items\<close>). The statements on the store are taken
  to succeed.
\<close>

record world =
  clock :: "nat \<Rightarrow> int"
  peer :: "nat \<Rightarrow> BatchSyncRequest \<Rightarrow> string + processed_item list"

text \<open>
  The state of a run: the store, the number of clock readings and the requests posted so
  far, and the three accumulators of \<^verbatim>\<open>sync()\<close>.
\<close>

record run =
  db :: store
  ticks :: nat
  posted :: "BatchSyncRequest list"
  successCount :: nat
  failCount :: nat
  run_errors :: "sync_error list"

subsection \<open>Operations\<close>

text \<open>
  \<^verbatim>\<open>updateSyncStatus(taskId, status, serverData?)\<close>, with \<open>now\<close> the reading of the clock.
  \<^verbatim>\<open>serverData?.server_id || null\<close> is \<open>None\<close> for an absent or empty identifier, and
  \<^verbatim>\<open>COALESCE(?, server_id)\<close> then keeps the column.
\<close>

definition updateSyncStatus ::
  "int \<Rightarrow> string \<Rightarrow> sync_status \<Rightarrow> partial_task option \<Rightarrow> store \<Rightarrow> store" where
  "updateSyncStatus now taskId st serverData s =
     (let lastSyncedAt = now;
          sid = (case serverData of
                   None \<Rightarrow> None
                 | Some d \<Rightarrow>
                     (case p_server_id d of
                        None \<Rightarrow> None
                      | Some x \<Rightarrow> if x = [] then None else Some x));
          s1 = update_tasks taskId
                 (\<lambda>r. r\<lparr>r_sync_status := st,
                        r_server_id := (case sid of None \<Rightarrow> r_server_id r | Some x \<Rightarrow> Some x),
                        r_last_synced_at := Some lastSyncedAt\<rparr>) s
      in if st = Synced then delete_sync_queue taskId s1 else s1)"

text \<open>\<^verbatim>\<open>a > b\<close> for a number \<open>b\<close> that may be NaN: a comparison with NaN is false.\<close>

definition js_greater :: "int \<Rightarrow> int option \<Rightarrow> bool" where
  "js_greater a b = (case b of None \<Rightarrow> False | Some n \<Rightarrow> a > n)"

text \<open>\<^verbatim>\<open>handleSyncError(item, error)\<close>\<close>

definition handleSyncError :: "config \<Rightarrow> queue_row \<Rightarrow> string \<Rightarrow> store \<Rightarrow> store" where
  "handleSyncError cfg item message s =
     (let newRetryCount = q_retry_count item + 1
      in if js_greater newRetryCount (maxRetries cfg)
         then update_sync_queue (q_id item) newRetryCount message
                (update_tasks (q_task_id item) (\<lambda>r. r\<lparr>r_sync_status := Error\<rparr>) s)
         else update_sync_queue (q_id item) newRetryCount message s)"

text \<open>\<^verbatim>\<open>resolveConflict(localTask, serverTask)\<close>; \<^verbatim>\<open>getTime()\<close> of an invalid date is NaN.\<close>

definition getTime :: "js_date \<Rightarrow> int option" where
  "getTime d = (case d of Instant n \<Rightarrow> Some n | InvalidDate \<Rightarrow> None)"

definition resolveConflict :: "task \<Rightarrow> task \<Rightarrow> task" where
  "resolveConflict localTask serverTask =
     (let localTime = getTime (t_updated_at localTask);
          serverTime = getTime (t_updated_at serverTask)
      in if (case (localTime, serverTime) of
               (Some l, Some v) \<Rightarrow> l \<ge> v
             | _ \<Rightarrow> False)
         then localTask else serverTask)"

text \<open>
  The object \<^verbatim>\<open>{ server_id: item.server_id, ...item.resolved_data }\<close>: a \<^verbatim>\<open>server_id\<close> key
  of the resolved data wins.
\<close>

definition serverData_of :: "processed_item \<Rightarrow> partial_task" where
  "serverData_of item =
     (case resolved_data item of
        None \<Rightarrow> no_fields\<lparr>p_server_id := server_id item\<rparr>
      | Some d \<Rightarrow>
          d\<lparr>p_server_id := (case p_server_id d of None \<Rightarrow> server_id item | Some x \<Rightarrow> Some x)\<rparr>)"

text \<open>The call of \<^verbatim>\<open>updateSyncStatus\<close> in a run: it reads the clock once.\<close>

definition run_updateSyncStatus ::
  "world \<Rightarrow> string \<Rightarrow> sync_status \<Rightarrow> partial_task option \<Rightarrow> run \<Rightarrow> run" where
  "run_updateSyncStatus w taskId st serverData r =
     r\<lparr>db := updateSyncStatus (clock w (ticks r)) taskId st serverData (db r),
       ticks := Suc (ticks r)\<rparr>"

text \<open>The body of the loop over \<^verbatim>\<open>response.processed_items\<close>.\<close>

definition sync_item :: "world \<Rightarrow> run \<Rightarrow> processed_item \<Rightarrow> run" where
  "sync_item w r item =
     (if status item = StatusSuccess then
        run_updateSyncStatus w (client_id item) Synced (Some (serverData_of item))
          (r\<lparr>successCount := successCount r + 1\<rparr>)
      else if status item = StatusConflict \<and> resolved_data item \<noteq> None then
        run_updateSyncStatus w (client_id item) Synced (Some (serverData_of item))
          (r\<lparr>successCount := successCount r + 1\<rparr>)
      else
        run_updateSyncStatus w (client_id item) Error None
          (r\<lparr>failCount := failCount r + 1,
             run_errors := run_errors r @
               [\<lparr>e_task_id = client_id item, e_operation = ''sync'',
                 e_error = or_else (error item) ''Unknown sync error'',
                 e_timestamp = clock w (ticks r)\<rparr>],
             ticks := Suc (ticks r)\<rparr>))"

text \<open>The body of the loop over the batch in the \<^verbatim>\<open>catch\<close> branch.\<close>

definition sync_failed_item :: "config \<Rightarrow> world \<Rightarrow> string \<Rightarrow> run \<Rightarrow> queue_row \<Rightarrow> run" where
  "sync_failed_item cfg w message r item =
     r\<lparr>failCount := failCount r + 1,
       run_errors := run_errors r @
         [\<lparr>e_task_id = q_task_id item, e_operation = operation_name (q_operation item),
           e_error = message, e_timestamp = clock w (ticks r)\<rparr>],
       ticks := Suc (ticks r),
       db := handleSyncError cfg item message (db r)\<rparr>"

text \<open>
  One iteration of the loop over the batches: \<^verbatim>\<open>processBatch\<close> builds the request (one
  reading of the clock) and posts it; then the items of the response are dispatched, or,
  when the post threw, every entry of the batch is a failure.
\<close>

definition sync_batch :: "config \<Rightarrow> world \<Rightarrow> run \<Rightarrow> queue_row list \<Rightarrow> run" where
  "sync_batch cfg w r batch =
     (let request = \<lparr>items = batch, client_timestamp = clock w (ticks r)\<rparr>;
          outcome = peer w (length (posted r)) request;
          r1 = r\<lparr>ticks := Suc (ticks r), posted := posted r @ [request]\<rparr>
      in case outcome of
           Inr processed_items \<Rightarrow> foldl (sync_item w) r1 processed_items
         | Inl message \<Rightarrow> foldl (sync_failed_item cfg w message) r1 batch)"

text \<open>
  \<^verbatim>\<open>Array.prototype.slice(start, end)\<close>; an end that is NaN counts as 0, a negative index
  counts from the end.
\<close>

definition js_slice :: "'a list \<Rightarrow> int \<Rightarrow> int option \<Rightarrow> 'a list" where
  "js_slice xs start fin =
     (let len = int (length xs);
          e = (case fin of None \<Rightarrow> 0 | Some n \<Rightarrow> n);
          k = (if start < 0 then max (len + start) 0 else min start len);
          final = (if e < 0 then max (len + e) 0 else min e len)
      in take (nat (final - k)) (drop (nat k) xs))"

text \<open>
  The loop \<^verbatim>\<open>for (let i = 0; i < queueItems.length; i += this.batchSize)\<close>. With a batch
  size that is NaN, \<open>i\<close> is NaN after the first iteration and the loop ends; with a
  batch size that is not positive the loop does not end, which is the value \<open>None\<close>.
\<close>

partial_function (option) sync_loop ::
  "config \<Rightarrow> world \<Rightarrow> queue_row list \<Rightarrow> int \<Rightarrow> run \<Rightarrow> run option" where
  "sync_loop cfg w queueItems i r =
     (if i < int (length queueItems) then
        (let batch = js_slice queueItems i (map_option (\<lambda>b. i + b) (batchSize cfg));
             r' = sync_batch cfg w r batch
         in case batchSize cfg of
              None \<Rightarrow> Some r'
            | Some b \<Rightarrow> sync_loop cfg w queueItems (i + b) r')
      else Some r)"

text \<open>
  \<^verbatim>\<open>sync()\<close> from its first statement after the read of the queue to its \<^verbatim>\<open>return\<close>:
  \<open>queueItems\<close> is what the read returned and \<open>s\<close> the store when the run goes on.
\<close>

definition sync_after_read ::
  "config \<Rightarrow> world \<Rightarrow> queue_row list \<Rightarrow> store \<Rightarrow> (SyncResult \<times> run) option" where
  "sync_after_read cfg w queueItems s =
     map_option
       (\<lambda>r. (\<lparr>success = (failCount r = 0), synced_items = successCount r,
               failed_items = failCount r, errors = run_errors r\<rparr>, r))
       (sync_loop cfg w queueItems 0
          \<lparr>db = s, ticks = 0, posted = [], successCount = 0, failCount = 0,
           run_errors = []\<rparr>)"

text \<open>\<^verbatim>\<open>sync()\<close>, run on its own: the store does not change between the read and the rest.\<close>

definition sync :: "config \<Rightarrow> world \<Rightarrow> store \<Rightarrow> (SyncResult \<times> run) option" where
  "sync cfg w s =
     (let queueItems = select_sync_queue s
      in sync_after_read cfg w queueItems s)"



subsection \<open>Connectivity\<close>

text \<open>
  \<^verbatim>\<open>axios\<close> is a library outside the repository: the outcome of the promise
  \<^verbatim>\<open>axios.get(url, { timeout })\<close> is an input, \<open>Inr\<close> the status of the response when the
  promise is fulfilled and \<open>Inl\<close> the message of the error when it is rejected (a timeout,
  a network error, a response the library does not accept). Which answers of the peer
  fulfil the promise (redirects followed, the status accepted, the time taken) is the
  library's and is not modelled.

  \<^verbatim>\<open>checkConnectivity()\<close>: the result is \<open>Inr\<close> the boolean returned, \<open>Inl\<close> an error thrown to
  the caller.
\<close>

definition checkConnectivity ::
  "config \<Rightarrow> (string \<Rightarrow> nat \<Rightarrow> string + nat) \<Rightarrow> string + bool" where
  "checkConnectivity cfg axios_get =
     (case axios_get (apiUrl cfg @ ''/health'') 5000 of
        Inr response \<Rightarrow> Inr True
      | Inl e \<Rightarrow> Inr False)"

subsection \<open>The aggregate, as the specification words it\<close>

text \<open>
  The partition of the entries into batches of a fixed size, in order (section 4.2,
  step 2 of the specification).
\<close>

function spec_batches :: "nat \<Rightarrow> 'a list \<Rightarrow> 'a list list" where
  "spec_batches n xs =
     (if n = 0 \<or> xs = [] then [] else take n xs # spec_batches n (drop n xs))"
  by pat_completeness auto
termination
  by (relation "measure (\<lambda>(n, xs). length xs)") auto

declare spec_batches.simps [simp del]

text \<open>
  The outcomes the loop counts as synced: \<^verbatim>\<open>success\<close>, and \<^verbatim>\<open>conflict\<close> with resolved data.
\<close>

definition item_synced :: "processed_item \<Rightarrow> bool" where
  "item_synced item =
     (status item = StatusSuccess \<or> (status item = StatusConflict \<and> resolved_data item \<noteq> None))"

text \<open>
  The failures of one batch, from the outcome of its post: every entry of the batch when
  the post threw, the items that are not synced otherwise; each as record id, operation
  and message.
\<close>

definition spec_failures ::
  "string + processed_item list \<Rightarrow> queue_row list \<Rightarrow> (string \<times> string \<times> string) list" where
  "spec_failures outcome batch =
     (case outcome of
        Inl message \<Rightarrow>
          map (\<lambda>q. (q_task_id q, operation_name (q_operation q), message)) batch
      | Inr processed_items \<Rightarrow>
          map (\<lambda>p. (client_id p, ''sync'', or_else (error p) ''Unknown sync error''))
            (filter (\<lambda>p. \<not> item_synced p) processed_items))"

definition spec_synced :: "string + processed_item list \<Rightarrow> nat" where
  "spec_synced outcome =
     (case outcome of Inl message \<Rightarrow> 0 | Inr processed_items \<Rightarrow> length (filter item_synced processed_items))"

text \<open>The outcome of the \<open>k\<close>-th post of a run.\<close>

definition outcome_of :: "world \<Rightarrow> run \<Rightarrow> nat \<Rightarrow> string + processed_item list" where
  "outcome_of w r k = peer w k (posted r ! k)"

definition error_detail :: "sync_error \<Rightarrow> string \<times> string \<times> string" where
  "error_detail e = (e_task_id e, e_operation e, e_error e)"

text \<open>
  The accumulators of a run account for the posts made so far: one error entry for each
  failure, in order, and the two counts.
\<close>

definition accounted :: "world \<Rightarrow> run \<Rightarrow> bool" where
  "accounted w r =
     (map error_detail (run_errors r) =
        concat (map (\<lambda>k. spec_failures (outcome_of w r k) (items (posted r ! k)))
          [0..<length (posted r)])
      \<and> failCount r = length (run_errors r)
      \<and> successCount r =
          sum_list (map (\<lambda>k. spec_synced (outcome_of w r k)) [0..<length (posted r)]))"

section \<open>Example values\<close>

definition example_row :: task_row where
  "example_row =
     \<lparr>r_id = ''t1'', r_title = ''Buy milk'', r_description = [], r_completed = False,
      r_created_at = 1000, r_updated_at = 1000, r_is_deleted = False,
      r_sync_status = Pending, r_server_id = None, r_last_synced_at = None\<rparr>"

definition example_store :: store where
  "example_store = \<lparr>tasks = [example_row], sync_queue = []\<rparr>"

definition example_io :: svc_io where
  "example_io =
     \<lparr>io_now = 2000, io_uuid = ''u1'', io_queue_uuid = ''q1'', io_queue_inserted_at = 2001,
      io_record_write_ok = True, io_log_write_ok = True\<rparr>"

definition log_write_fails :: svc_io where
  "log_write_fails = example_io\<lparr>io_log_write_ok := False\<rparr>"


definition create_then_update :: "(svc_io \<times> mutation) list" where
  "create_then_update =
     [(\<lparr>io_now = 10, io_uuid = ''t9'', io_queue_uuid = ''qa'', io_queue_inserted_at = 11,
        io_record_write_ok = True, io_log_write_ok = True\<rparr>,
       CreateTask (no_fields\<lparr>p_title := Some ''Call''\<rparr>)),
      (\<lparr>io_now = 20, io_uuid = ''u2'', io_queue_uuid = ''qb'', io_queue_inserted_at = 21,
        io_record_write_ok = True, io_log_write_ok = True\<rparr>,
       UpdateTask ''t9'' (no_fields\<lparr>p_completed := Some True\<rparr>))]"

definition empty_store :: store where
  "empty_store = \<lparr>tasks = [], sync_queue = []\<rparr>"

text \<open>The store after that sequence, with its queue in the reverse storage order.\<close>

definition scanned_backwards :: store where
  "scanned_backwards =
     (let s = run_mutations empty_store create_then_update
      in s\<lparr>sync_queue := rev (sync_queue s)\<rparr>)"

definition local_copy :: task where
  "local_copy = rowToTask example_row"

definition server_copy :: task where
  "server_copy = local_copy\<lparr>t_title := ''Buy oat milk'', t_server_id := Some ''srv-1''\<rparr>"

definition default_config :: config where
  "default_config =
     SyncService parseInt_ascii
       \<lparr>API_BASE_URL = None, SYNC_BATCH_SIZE = None, SYNC_MAX_RETRIES = None\<rparr> None"

definition entry_create :: queue_row where
  "entry_create =
     \<lparr>q_id = ''qa'', q_task_id = ''t1'', q_operation = Create,
      q_data = no_fields\<lparr>p_title := Some ''Buy milk''\<rparr>,
      q_created_at = 1001, q_retry_count = 0, q_error_message = None\<rparr>"

definition entry_update :: queue_row where
  "entry_update =
     \<lparr>q_id = ''qb'', q_task_id = ''t1'', q_operation = Update,
      q_data = no_fields\<lparr>p_completed := Some True\<rparr>,
      q_created_at = 1002, q_retry_count = 0, q_error_message = None\<rparr>"

definition two_entries :: store where
  "two_entries = \<lparr>tasks = [example_row], sync_queue = [entry_create, entry_update]\<rparr>"

definition one_per_batch :: config where
  "one_per_batch = default_config\<lparr>batchSize := Some 1\<rparr>"

definition confirmed_item :: processed_item where
  "confirmed_item =
     \<lparr>client_id = ''t1'', server_id = Some ''srv-1'', status = StatusSuccess,
      resolved_data = None, error = None\<rparr>"

definition rejected_item :: processed_item where
  "rejected_item =
     \<lparr>client_id = ''t1'', server_id = None, status = StatusError,
      resolved_data = None, error = Some ''validation failed''\<rparr>"

text \<open>A peer that confirms the first post and is gone at the later ones.\<close>

definition confirms_then_fails :: world where
  "confirms_then_fails =
     \<lparr>clock = (\<lambda>k. 5000 + int k),
      peer = (\<lambda>k request. if k = 0 then Inr [confirmed_item] else Inl ''ECONNRESET'')\<rparr>"

definition start_of_run :: run where
  "start_of_run =
     \<lparr>db = two_entries, ticks = 0, posted = [], successCount = 0, failCount = 0,
      run_errors = []\<rparr>"

definition end_of_run :: run where
  "end_of_run =
     \<lparr>db = \<lparr>tasks = [example_row\<lparr>r_sync_status := Synced, r_server_id := Some ''srv-1'',
                               r_last_synced_at := Some 5001\<rparr>],
            sync_queue = []\<rparr>,
      ticks = 4,
      posted = [\<lparr>items = [entry_create], client_timestamp = 5000\<rparr>,
                \<lparr>items = [entry_update], client_timestamp = 5002\<rparr>],
      successCount = 1, failCount = 1,
      run_errors = [\<lparr>e_task_id = ''t1'', e_operation = ''update'',
                      e_error = ''ECONNRESET'', e_timestamp = 5003\<rparr>]\<rparr>"






text \<open>The same two mutations, the store inserting both queue rows at the same instant.\<close>

definition same_instant :: "(svc_io \<times> mutation) list" where
  "same_instant =
     [(\<lparr>io_now = 10, io_uuid = ''t9'', io_queue_uuid = ''qa'', io_queue_inserted_at = 11,
        io_record_write_ok = True, io_log_write_ok = True\<rparr>,
       CreateTask (no_fields\<lparr>p_title := Some ''Call''\<rparr>)),
      (\<lparr>io_now = 10, io_uuid = ''u2'', io_queue_uuid = ''qb'', io_queue_inserted_at = 11,
        io_record_write_ok = True, io_log_write_ok = True\<rparr>,
       UpdateTask ''t9'' (no_fields\<lparr>p_completed := Some True\<rparr>))]"

text \<open>The store after them, with its queue in the reverse storage order.\<close>

definition tied_backwards :: store where
  "tied_backwards =
     (let s = run_mutations empty_store same_instant
      in s\<lparr>sync_queue := rev (sync_queue s)\<rparr>)"

text \<open>A peer that confirms every entry of a request; \<^verbatim>\<open>SYNC_BATCH_SIZE\<close> set to 0 and to a word.\<close>

definition confirms_each :: world where
  "confirms_each =
     \<lparr>clock = (\<lambda>k. 5000 + int k),
      peer = (\<lambda>k request.
                Inr (map (\<lambda>q. \<lparr>client_id = q_task_id q, server_id = Some ''srv-1'',
                                status = StatusSuccess, resolved_data = None, error = None\<rparr>)
                       (items request)))\<rparr>"

definition zero_batch_size :: config where
  "zero_batch_size =
     SyncService parseInt_ascii
       \<lparr>API_BASE_URL = None, SYNC_BATCH_SIZE = Some ''0'', SYNC_MAX_RETRIES = None\<rparr> None"

definition unparsable_batch_size :: config where
  "unparsable_batch_size =
     SyncService parseInt_ascii
       \<lparr>API_BASE_URL = None, SYNC_BATCH_SIZE = Some ''abc'', SYNC_MAX_RETRIES = None\<rparr> None"


section \<open>Properties\<close>

subsection \<open>The store under the statements\<close>



lemma select_task_insert_sync_queue [simp]:
  "select_task i (insert_sync_queue at qid tid op d s) = select_task i s"
  by (simp add: select_task_def insert_sync_queue_def)

lemma getTask_insert_sync_queue [simp]:
  "getTask i (insert_sync_queue at qid tid op d s) = getTask i s"
  by (simp add: getTask_def)

lemma sync_queue_update_tasks [simp]: "sync_queue (update_tasks i f s) = sync_queue s"
  by (simp add: update_tasks_def)

lemma tasks_insert_sync_queue [simp]:
  "tasks (insert_sync_queue at qid tid op d s) = tasks s"
  by (simp add: insert_sync_queue_def)

lemma sync_queue_insert_task [simp]: "sync_queue (insert_task row s) = sync_queue s"
  by (simp add: insert_task_def)

lemma sync_queue_insert_sync_queue:
  "sync_queue (insert_sync_queue at qid tid op d s) = sync_queue s @
     [\<lparr>q_id = qid, q_task_id = tid, q_operation = op, q_data = d, q_created_at = at,
       q_retry_count = 0, q_error_message = None\<rparr>]"
  by (simp add: insert_sync_queue_def)

lemma example_task_live: "getTask ''t1'' example_store = Some (rowToTask example_row)"
  by (simp add: getTask_def select_task_def example_store_def example_row_def)

subsection \<open>The two writes of a mutation\<close>

lemma createTask_two_writes:
  "two_writes io (createTask io d s) (createTask (writes_ok io) d s) s"
  by (simp add: two_writes_def createTask_def writes_ok_def Let_def
      cong: option.case_cong if_cong)

lemma updateTask_two_writes:
  "getTask i s \<noteq> None \<Longrightarrow>
   two_writes io (updateTask io i u s) (updateTask (writes_ok io) i u s) s"
  by (auto simp: two_writes_def updateTask_def writes_ok_def Let_def)

lemma deleteTask_two_writes:
  "getTask i s \<noteq> None \<Longrightarrow>
   two_writes io (deleteTask io i s) (deleteTask (writes_ok io) i s) s"
  by (auto simp: two_writes_def deleteTask_def writes_ok_def Let_def)

text \<open>
  C3, as the code has it. The claim reads: each mutating operation is atomic, the record
  write and the append to the Mutation Log both take effect or neither does. The source
  issues the two writes as two statements, with no transaction. A call whose record
  write rejects leaves the store as it was; a call whose append rejects after the record
  write leaves the record write in the store, with no log entry, and throws; a log entry
  is appended only after the record write was carried out. A call for an id with no live
  record writes nothing.
\<close>

theorem mutation_is_two_separate_writes:
  "two_writes io (createTask io d s) (createTask (writes_ok io) d s) s
   \<and> (getTask i s \<noteq> None \<longrightarrow>
        two_writes io (updateTask io i u s) (updateTask (writes_ok io) i u s) s
        \<and> two_writes io (deleteTask io i s) (deleteTask (writes_ok io) i s) s)
   \<and> (getTask i s = None \<longrightarrow>
        updateTask io i u s = (Inr None, s) \<and> deleteTask io i s = (Inr False, s))"
  using createTask_two_writes updateTask_two_writes deleteTask_two_writes
  by (simp add: updateTask_def deleteTask_def)

theorem mutation_is_two_separate_writes_witness:
  "getTask ''t1'' example_store \<noteq> None
   \<and> two_writes log_write_fails (createTask log_write_fails no_fields example_store)
       (createTask (writes_ok log_write_fails) no_fields example_store) example_store
   \<and> two_writes log_write_fails
        (updateTask log_write_fails ''t1'' no_fields example_store)
        (updateTask (writes_ok log_write_fails) ''t1'' no_fields example_store) example_store
   \<and> two_writes log_write_fails (deleteTask log_write_fails ''t1'' example_store)
        (deleteTask (writes_ok log_write_fails) ''t1'' example_store) example_store
   \<and> tasks (snd (deleteTask log_write_fails ''t1'' example_store))
        = [example_row\<lparr>r_is_deleted := True, r_updated_at := 2000\<rparr>]
   \<and> sync_queue (snd (deleteTask log_write_fails ''t1'' example_store)) = []"
proof -
  have live: "getTask ''t1'' example_store \<noteq> None"
    by (simp add: example_task_live)
  have "tasks (snd (deleteTask log_write_fails ''t1'' example_store))
        = [example_row\<lparr>r_is_deleted := True, r_updated_at := 2000\<rparr>]
   \<and> sync_queue (snd (deleteTask log_write_fails ''t1'' example_store)) = []"
    by (simp add: deleteTask_def getTask_def select_task_def example_store_def example_row_def
        log_write_fails_def example_io_def update_tasks_def Let_def)
  with live
    mutation_is_two_separate_writes [of log_write_fails no_fields example_store "''t1''" no_fields]
  show ?thesis by simp
qed

text \<open>
  C3 as stated fails: \<^verbatim>\<open>createTask\<close> whose append to the log rejects throws, and the store
  has the new record and no log entry for it.
\<close>

theorem createTask_partial_application:
  "fst (createTask log_write_fails no_fields example_store) = Inl WriteFailed
   \<and> length (tasks (snd (createTask log_write_fails no_fields example_store)))
       = Suc (length (tasks example_store))
   \<and> sync_queue (snd (createTask log_write_fails no_fields example_store))
       = sync_queue example_store"
  by (simp add: createTask_def log_write_fails_def example_io_def example_store_def
      no_fields_def insert_task_def Let_def)

subsection \<open>A delete through the update path\<close>



subsection \<open>The Mutation Log in creation order\<close>

lemma apply_mutation_queue:
  "sync_queue (apply_mutation s (io, m)) = sync_queue s \<or>
   (\<exists>e. sync_queue (apply_mutation s (io, m)) = sync_queue s @ [e]
        \<and> q_created_at e = io_queue_inserted_at io)"
  by (cases m)
    (auto simp: createTask_def updateTask_def deleteTask_def Let_def
      sync_queue_insert_sync_queue split: option.splits)

lemma run_mutations_strictly_sorted:
  assumes "sorted_wrt (<) (map q_created_at (sync_queue s))"
    and "\<forall>q\<in>set (sync_queue s). \<forall>p\<in>set ms. q_created_at q < io_queue_inserted_at (fst p)"
    and "sorted_wrt (<) (map (\<lambda>p. io_queue_inserted_at (fst p)) ms)"
  shows "sorted_wrt (<) (map q_created_at (sync_queue (run_mutations s ms)))"
  using assms
proof (induction ms arbitrary: s)
  case Nil
  then show ?case by (simp add: run_mutations_def)
next
  case (Cons p ms)
  obtain io m where p: "p = (io, m)" by (cases p)
  let ?s1 = "apply_mutation s p"
  from apply_mutation_queue [of s io m]
  consider "sync_queue ?s1 = sync_queue s"
    | e where "sync_queue ?s1 = sync_queue s @ [e]" "q_created_at e = io_queue_inserted_at io"
    unfolding p by blast
  then have inv: "sorted_wrt (<) (map q_created_at (sync_queue ?s1))
      \<and> (\<forall>q\<in>set (sync_queue ?s1). \<forall>p'\<in>set ms. q_created_at q < io_queue_inserted_at (fst p'))"
  proof cases
    case 1
    with Cons.prems show ?thesis by simp
  next
    case 2
    with Cons.prems show ?thesis
      by (auto simp: sorted_wrt_append p)
  qed
  from Cons.prems(3) have "sorted_wrt (<) (map (\<lambda>p. io_queue_inserted_at (fst p)) ms)" by simp
  with inv have "sorted_wrt (<) (map q_created_at (sync_queue (run_mutations ?s1 ms)))"
    by (intro Cons.IH) auto
  then show ?case by (simp add: run_mutations_def)
qed

lemma select_sync_queue_any_scan_order:
  assumes "mset (sync_queue s2) = mset q" and "sorted_wrt (<) (map q_created_at q)"
  shows "select_sync_queue s2 = q"
proof -
  from assms(2) have "sorted (map q_created_at q)" "distinct (map q_created_at q)"
    by (simp_all add: strict_sorted_iff)
  moreover have "set (sync_queue s2) = set q" using assms(1) by (rule mset_eq_setD)
  ultimately show ?thesis
    unfolding select_sync_queue_def
    by (intro sort_key_inj_key_eq assms(1)) (simp_all add: distinct_map)
qed

lemma createTask_appends:
  "io_record_write_ok io \<Longrightarrow> io_log_write_ok io \<Longrightarrow>
   sync_queue (snd (createTask io d s)) = sync_queue s @
     [\<lparr>q_id = io_queue_uuid io, q_task_id = t_id (projr (fst (createTask io d s))),
       q_operation = Create, q_data = JSON_stringify_task (projr (fst (createTask io d s))),
       q_created_at = io_queue_inserted_at io, q_retry_count = 0, q_error_message = None\<rparr>]"
  by (simp add: createTask_def Let_def sync_queue_insert_sync_queue)

lemma updateTask_appends:
  "getTask i s \<noteq> None \<Longrightarrow> io_record_write_ok io \<Longrightarrow> io_log_write_ok io \<Longrightarrow>
   sync_queue (snd (updateTask io i u s)) = sync_queue s @
     [\<lparr>q_id = io_queue_uuid io, q_task_id = i, q_operation = Update, q_data = u,
       q_created_at = io_queue_inserted_at io, q_retry_count = 0, q_error_message = None\<rparr>]"
  by (auto simp: updateTask_def Let_def sync_queue_insert_sync_queue)

lemma deleteTask_appends:
  "getTask i s \<noteq> None \<Longrightarrow> io_record_write_ok io \<Longrightarrow> io_log_write_ok io \<Longrightarrow>
   sync_queue (snd (deleteTask io i s)) = sync_queue s @
     [\<lparr>q_id = io_queue_uuid io, q_task_id = i, q_operation = Delete, q_data = no_fields,
       q_created_at = io_queue_inserted_at io, q_retry_count = 0, q_error_message = None\<rparr>]"
  by (auto simp: deleteTask_def Let_def sync_queue_insert_sync_queue)

text \<open>
  C2, as the code has it. Each mutation of the Record Service that is carried out appends
  one entry to the Mutation Log, and the entry carries the instant of its insertion as
  creation timestamp. After every sequence of mutations, whatever the storage order of
  the queue, the read of \<^verbatim>\<open>sync()\<close> returns all the entries, by creation time that does
  not decrease, and so the entries of one record. When the creation timestamps strictly
  increase (those in the queue before, then those of the insertions), the read returns
  the entries exactly in the order of the mutations; nothing in the code makes them
  increase strictly, and the creation time does not order entries of equal timestamp.
\<close>

theorem mutation_log_drained_oldest_first:
  "(io_record_write_ok io \<and> io_log_write_ok io \<longrightarrow>
      (\<exists>e. sync_queue (snd (createTask io d s)) = sync_queue s @ [e]
          \<and> q_operation e = Create \<and> q_created_at e = io_queue_inserted_at io)
      \<and> (getTask i s \<noteq> None \<longrightarrow>
           (\<exists>e. sync_queue (snd (updateTask io i u s)) = sync_queue s @ [e]
               \<and> q_task_id e = i \<and> q_operation e = Update
               \<and> q_created_at e = io_queue_inserted_at io)
           \<and> (\<exists>e. sync_queue (snd (deleteTask io i s)) = sync_queue s @ [e]
               \<and> q_task_id e = i \<and> q_operation e = Delete
               \<and> q_created_at e = io_queue_inserted_at io)))
   \<and> (\<forall>s2. mset (sync_queue s2) = mset (sync_queue (run_mutations s ms)) \<longrightarrow>
          mset (select_sync_queue s2) = mset (sync_queue (run_mutations s ms))
          \<and> sorted (map q_created_at (select_sync_queue s2))
          \<and> sorted (map q_created_at (filter (\<lambda>q. q_task_id q = tid) (select_sync_queue s2))))
   \<and> (sorted_wrt (<) (map q_created_at (sync_queue s))
        \<and> (\<forall>q\<in>set (sync_queue s). \<forall>p\<in>set ms. q_created_at q < io_queue_inserted_at (fst p))
        \<and> sorted_wrt (<) (map (\<lambda>p. io_queue_inserted_at (fst p)) ms) \<longrightarrow>
         sorted_wrt (<) (map q_created_at
            (filter (\<lambda>q. q_task_id q = tid) (sync_queue (run_mutations s ms))))
         \<and> (\<forall>s2. mset (sync_queue s2) = mset (sync_queue (run_mutations s ms)) \<longrightarrow>
               select_sync_queue s2 = sync_queue (run_mutations s ms)))"
proof (intro conjI impI allI)
  assume "io_record_write_ok io \<and> io_log_write_ok io"
  then have ok: "io_record_write_ok io" "io_log_write_ok io" by simp_all
  from createTask_appends [OF ok, of d s]
  show "\<exists>e. sync_queue (snd (createTask io d s)) = sync_queue s @ [e]
          \<and> q_operation e = Create \<and> q_created_at e = io_queue_inserted_at io"
    by simp
  assume live: "getTask i s \<noteq> None"
  from updateTask_appends [OF live ok, of u]
  show "\<exists>e. sync_queue (snd (updateTask io i u s)) = sync_queue s @ [e]
               \<and> q_task_id e = i \<and> q_operation e = Update
               \<and> q_created_at e = io_queue_inserted_at io"
    by simp
  from deleteTask_appends [OF live ok]
  show "\<exists>e. sync_queue (snd (deleteTask io i s)) = sync_queue s @ [e]
               \<and> q_task_id e = i \<and> q_operation e = Delete
               \<and> q_created_at e = io_queue_inserted_at io"
    by simp
next
  fix s2 :: store assume "mset (sync_queue s2) = mset (sync_queue (run_mutations s ms))"
  then show "mset (select_sync_queue s2) = mset (sync_queue (run_mutations s ms))"
    by (simp add: select_sync_queue_def)
  show "sorted (map q_created_at (select_sync_queue s2))"
    by (simp add: select_sync_queue_def)
  then show "sorted (map q_created_at
      (filter (\<lambda>q. q_task_id q = tid) (select_sync_queue s2)))"
    by (rule sorted_filter)
next
  assume "sorted_wrt (<) (map q_created_at (sync_queue s))
        \<and> (\<forall>q\<in>set (sync_queue s). \<forall>p\<in>set ms. q_created_at q < io_queue_inserted_at (fst p))
        \<and> sorted_wrt (<) (map (\<lambda>p. io_queue_inserted_at (fst p)) ms)"
  then have strict: "sorted_wrt (<) (map q_created_at (sync_queue (run_mutations s ms)))"
    by (intro run_mutations_strictly_sorted) simp_all
  then show "sorted_wrt (<) (map q_created_at
      (filter (\<lambda>q. q_task_id q = tid) (sync_queue (run_mutations s ms))))"
    by (simp add: sorted_wrt_map sorted_wrt_filter)
  fix s2 :: store assume "mset (sync_queue s2) = mset (sync_queue (run_mutations s ms))"
  then show "select_sync_queue s2 = sync_queue (run_mutations s ms)"
    using strict by (rule select_sync_queue_any_scan_order)
qed

lemma create_then_update_queue:
  "sync_queue (run_mutations empty_store create_then_update) =
     [\<lparr>q_id = ''qa'', q_task_id = ''t9'', q_operation = Create,
       q_data = \<lparr>p_id = Some ''t9'', p_title = Some ''Call'', p_description = Some [],
                 p_completed = Some False, p_created_at = Some (Instant 10),
                 p_updated_at = Some (Instant 10), p_is_deleted = Some False,
                 p_sync_status = Some Pending, p_server_id = None, p_last_synced_at = None\<rparr>,
       q_created_at = 11, q_retry_count = 0, q_error_message = None\<rparr>,
      \<lparr>q_id = ''qb'', q_task_id = ''t9'', q_operation = Update,
       q_data = no_fields\<lparr>p_completed := Some True\<rparr>,
       q_created_at = 21, q_retry_count = 0, q_error_message = None\<rparr>]"
  by (simp add: run_mutations_def create_then_update_def empty_store_def createTask_def
      updateTask_def getTask_def select_task_def insert_task_def update_tasks_def
      insert_sync_queue_def JSON_stringify_task_def no_fields_def Let_def)

theorem mutation_log_drained_oldest_first_witness:
  "sorted_wrt (<) (map q_created_at (sync_queue empty_store))
   \<and> sorted_wrt (<) (map (\<lambda>p. io_queue_inserted_at (fst p)) create_then_update)
   \<and> mset (sync_queue scanned_backwards)
       = mset (sync_queue (run_mutations empty_store create_then_update))
   \<and> map q_operation (sync_queue scanned_backwards) = [Update, Create]
   \<and> select_sync_queue scanned_backwards
       = sync_queue (run_mutations empty_store create_then_update)
   \<and> map q_operation (select_sync_queue scanned_backwards) = [Create, Update]
   \<and> sorted (map q_created_at
        (filter (\<lambda>q. q_task_id q = ''t9'') (select_sync_queue scanned_backwards)))"
proof -
  have a: "sorted_wrt (<) (map q_created_at (sync_queue empty_store))"
    and a': "\<forall>q\<in>set (sync_queue empty_store). \<forall>p\<in>set create_then_update.
        q_created_at q < io_queue_inserted_at (fst p)"
    by (simp_all add: empty_store_def)
  have b: "sorted_wrt (<) (map (\<lambda>p. io_queue_inserted_at (fst p)) create_then_update)"
    by (simp add: create_then_update_def)
  have c: "mset (sync_queue scanned_backwards)
       = mset (sync_queue (run_mutations empty_store create_then_update))"
    by (simp add: scanned_backwards_def Let_def)
  have d: "map q_operation (sync_queue scanned_backwards) = [Update, Create]"
    by (simp add: scanned_backwards_def Let_def create_then_update_queue)
  from mutation_log_drained_oldest_first
    [of example_io no_fields empty_store "''t9''" no_fields create_then_update "''t9''"]
    a a' b c
  have e: "select_sync_queue scanned_backwards
       = sync_queue (run_mutations empty_store create_then_update)"
   and f: "sorted (map q_created_at
        (filter (\<lambda>q. q_task_id q = ''t9'') (select_sync_queue scanned_backwards)))"
    by blast+
  from e have "map q_operation (select_sync_queue scanned_backwards) = [Create, Update]"
    by (simp add: create_then_update_queue)
  with a b c d e f show ?thesis by simp
qed

text \<open>
  C2 as stated fails. A \<^verbatim>\<open>create\<close> and then an \<^verbatim>\<open>update\<close> of one record whose queue rows
  the store inserts at the same instant: the drained creation times are equal, not
  strictly ordered, and with the queue scanned in the other order the \<^verbatim>\<open>update\<close> entry
  is drained before the \<^verbatim>\<open>create\<close> entry.
\<close>

theorem equal_instants_drain_unordered:
  "map (io_queue_inserted_at \<circ> fst) same_instant = [11, 11]
   \<and> map q_operation (sync_queue (run_mutations empty_store same_instant)) = [Create, Update]
   \<and> map q_task_id (sync_queue (run_mutations empty_store same_instant)) = [''t9'', ''t9'']
   \<and> map q_created_at (select_sync_queue (run_mutations empty_store same_instant)) = [11, 11]
   \<and> mset (sync_queue tied_backwards)
       = mset (sync_queue (run_mutations empty_store same_instant))
   \<and> map q_operation (select_sync_queue tied_backwards) = [Update, Create]"
proof -
  have queue: "sync_queue (run_mutations empty_store same_instant) =
     [\<lparr>q_id = ''qa'', q_task_id = ''t9'', q_operation = Create,
       q_data = \<lparr>p_id = Some ''t9'', p_title = Some ''Call'', p_description = Some [],
                 p_completed = Some False, p_created_at = Some (Instant 10),
                 p_updated_at = Some (Instant 10), p_is_deleted = Some False,
                 p_sync_status = Some Pending, p_server_id = None, p_last_synced_at = None\<rparr>,
       q_created_at = 11, q_retry_count = 0, q_error_message = None\<rparr>,
      \<lparr>q_id = ''qb'', q_task_id = ''t9'', q_operation = Update,
       q_data = no_fields\<lparr>p_completed := Some True\<rparr>,
       q_created_at = 11, q_retry_count = 0, q_error_message = None\<rparr>]"
    by (simp add: run_mutations_def same_instant_def empty_store_def createTask_def
        updateTask_def getTask_def select_task_def insert_task_def update_tasks_def
        insert_sync_queue_def JSON_stringify_task_def no_fields_def Let_def)
  have "map (io_queue_inserted_at \<circ> fst) same_instant = [11, 11]"
    by (simp add: same_instant_def)
  then show ?thesis
    by (simp add: tied_backwards_def Let_def select_sync_queue_def queue)
qed

subsection \<open>Last write wins\<close>

text \<open>
  C7. \<^verbatim>\<open>resolveConflict\<close> is a function of the two \<^verbatim>\<open>updated_at\<close> instants alone: it returns
  the local record when the local instant is at or after the server's (a tie keeps the
  local record), and the server record otherwise, also when a date is invalid.
\<close>

theorem resolveConflict_last_write_wins:
  "(t_updated_at localTask = Instant a \<and> t_updated_at serverTask = Instant b \<longrightarrow>
      (b \<le> a \<longrightarrow> resolveConflict localTask serverTask = localTask)
      \<and> (a < b \<longrightarrow> resolveConflict localTask serverTask = serverTask))
   \<and> (t_updated_at localTask = InvalidDate \<or> t_updated_at serverTask = InvalidDate \<longrightarrow>
        resolveConflict localTask serverTask = serverTask)"
  by (auto simp: resolveConflict_def getTime_def Let_def split: js_date.splits)

theorem resolveConflict_last_write_wins_witness:
  "t_updated_at local_copy = Instant 1000 \<and> t_updated_at server_copy = Instant 1000
   \<and> local_copy \<noteq> server_copy
   \<and> resolveConflict local_copy server_copy = local_copy
   \<and> resolveConflict local_copy (server_copy\<lparr>t_updated_at := Instant 1001\<rparr>)
       = server_copy\<lparr>t_updated_at := Instant 1001\<rparr>"
proof -
  have a: "t_updated_at local_copy = Instant 1000"
    and b: "t_updated_at server_copy = Instant 1000"
    and c: "local_copy \<noteq> server_copy"
    by (simp_all add: local_copy_def server_copy_def rowToTask_def example_row_def)
  from resolveConflict_last_write_wins [of local_copy 1000 server_copy 1000] a b
  have d: "resolveConflict local_copy server_copy = local_copy" by simp
  from resolveConflict_last_write_wins
    [of local_copy 1000 "server_copy\<lparr>t_updated_at := Instant 1001\<rparr>" 1001] a
  have "resolveConflict local_copy (server_copy\<lparr>t_updated_at := Instant 1001\<rparr>)
       = server_copy\<lparr>t_updated_at := Instant 1001\<rparr>" by simp
  with a b c d show ?thesis by simp
qed

subsection \<open>The connectivity probe\<close>

text \<open>
  C8. \<^verbatim>\<open>checkConnectivity()\<close> never throws: whatever the outcome of the probe it returns a
  boolean. The probe is one \<^verbatim>\<open>GET\<close> of the health endpoint with a timeout of 5000 ms; the
  result is true exactly when the promise of the probe is fulfilled with a response, and
  false exactly when it is rejected, by a timeout or by any other error.
\<close>

theorem checkConnectivity_never_throws:
  "(\<exists>online. checkConnectivity cfg axios_get = Inr online)
   \<and> (checkConnectivity cfg axios_get = Inr True) =
       (\<exists>response. axios_get (apiUrl cfg @ ''/health'') 5000 = Inr response)
   \<and> (checkConnectivity cfg axios_get = Inr False) =
       (\<exists>e. axios_get (apiUrl cfg @ ''/health'') 5000 = Inl e)"
  by (cases "axios_get (apiUrl cfg @ ''/health'') 5000") (auto simp: checkConnectivity_def)

theorem checkConnectivity_never_throws_witness:
  "checkConnectivity default_config (\<lambda>url timeout. Inl ''timeout of 5000ms exceeded'')
     = Inr False
   \<and> checkConnectivity default_config
        (\<lambda>url timeout. if url = ''http://localhost:3000/api/health'' \<and> timeout = 5000
                        then Inr 200 else Inl ''ECONNREFUSED'') = Inr True"
proof -
  have url: "apiUrl default_config @ ''/health'' = ''http://localhost:3000/api/health''"
    by (simp add: default_config_def SyncService_def or_else_def)
  from checkConnectivity_never_throws
    [of default_config "\<lambda>url timeout. Inl ''timeout of 5000ms exceeded''"]
  have a: "checkConnectivity default_config
      (\<lambda>url timeout. Inl ''timeout of 5000ms exceeded'') = Inr False"
    by simp
  from checkConnectivity_never_throws [of default_config
      "\<lambda>url timeout. if url = ''http://localhost:3000/api/health'' \<and> timeout = 5000
                      then Inr 200 else Inl ''ECONNREFUSED''"] url
  have "checkConnectivity default_config
        (\<lambda>url timeout. if url = ''http://localhost:3000/api/health'' \<and> timeout = 5000
                        then Inr 200 else Inl ''ECONNREFUSED'') = Inr True"
    by simp
  with a show ?thesis by simp
qed

lemma default_config_values:
  "batchSize default_config = Some 10" "maxRetries default_config = Some 3"
  by (simp_all add: default_config_def SyncService_def or_else_def parseInt_ascii_def
      is_space_def is_digit_def digits_value_def)

subsection \<open>The run over the batches\<close>


lemma spec_batches_Nil [simp]: "spec_batches n [] = []"
  by (simp add: spec_batches.simps)

lemma js_slice_batch:
  assumes "0 \<le> i" "0 < b"
  shows "js_slice xs i (Some (i + b)) = take (nat b) (drop (nat i) xs)"
proof (cases "i < int (length xs)")
  case True
  with assms have "nat (min (i + b) (int (length xs)) - i) = min (nat b) (length xs - nat i)"
    by (auto simp: min_def nat_diff_distrib)
  with assms True show ?thesis
    by (simp add: js_slice_def Let_def min_def)
next
  case False
  with assms show ?thesis by (simp add: js_slice_def Let_def min_def)
qed

lemma sync_loop_all_batches:
  assumes bs: "batchSize cfg = Some b" and pos: "0 < b"
  shows "0 \<le> i \<Longrightarrow>
    sync_loop cfg w queueItems i r =
      Some (foldl (sync_batch cfg w) r (spec_batches (nat b) (drop (nat i) queueItems)))"
proof (induction "length queueItems - nat i" arbitrary: i r rule: less_induct)
  case less
  show ?case
  proof (cases "i < int (length queueItems)")
    case False
    then have "drop (nat i) queueItems = []" by simp
    with False show ?thesis by (subst sync_loop.simps) simp
  next
    case True
    let ?batch = "take (nat b) (drop (nat i) queueItems)"
    have step: "length queueItems - nat (i + b) < length queueItems - nat i"
      using True pos less.prems by (simp add: nat_add_distrib)
    have "sync_loop cfg w queueItems (i + b) (sync_batch cfg w r ?batch) =
        Some (foldl (sync_batch cfg w) (sync_batch cfg w r ?batch)
          (spec_batches (nat b) (drop (nat (i + b)) queueItems)))"
      using less.prems pos by (intro less.hyps [OF step]) simp
    moreover have "drop (nat (i + b)) queueItems = drop (nat b) (drop (nat i) queueItems)"
      using less.prems pos by (simp add: nat_add_distrib add.commute)
    moreover have "drop (nat i) queueItems \<noteq> []" using True less.prems by simp
    moreover have "sync_loop cfg w queueItems i r =
        sync_loop cfg w queueItems (i + b) (sync_batch cfg w r ?batch)"
      using True pos less.prems bs
      by (subst sync_loop.simps) (simp add: js_slice_batch Let_def)
    moreover have "spec_batches (nat b) (drop (nat i) queueItems) =
        ?batch # spec_batches (nat b) (drop (nat b) (drop (nat i) queueItems))"
      using \<open>drop (nat i) queueItems \<noteq> []\<close> pos
      by (subst spec_batches.simps) simp
    ultimately show ?thesis by simp
  qed
qed

lemma sync_item_account:
  "posted (sync_item w r p) = posted r"
  "successCount (sync_item w r p) = successCount r + (if item_synced p then 1 else 0)"
  "failCount (sync_item w r p) = failCount r + (if item_synced p then 0 else 1)"
  "map error_detail (run_errors (sync_item w r p)) =
     map error_detail (run_errors r) @
       (if item_synced p then []
        else [(client_id p, ''sync'', or_else (error p) ''Unknown sync error'')])"
  by (auto simp: sync_item_def run_updateSyncStatus_def item_synced_def error_detail_def)

lemma foldl_sync_item_account:
  "posted (foldl (sync_item w) r ps) = posted r
   \<and> successCount (foldl (sync_item w) r ps) = successCount r + length (filter item_synced ps)
   \<and> failCount (foldl (sync_item w) r ps)
       = failCount r + length (filter (\<lambda>p. \<not> item_synced p) ps)
   \<and> map error_detail (run_errors (foldl (sync_item w) r ps)) =
       map error_detail (run_errors r) @
         map (\<lambda>p. (client_id p, ''sync'', or_else (error p) ''Unknown sync error''))
           (filter (\<lambda>p. \<not> item_synced p) ps)"
  by (induction ps arbitrary: r) (simp_all add: sync_item_account)

lemma sync_failed_item_account:
  "posted (sync_failed_item cfg w m r q) = posted r"
  "successCount (sync_failed_item cfg w m r q) = successCount r"
  "failCount (sync_failed_item cfg w m r q) = failCount r + 1"
  "map error_detail (run_errors (sync_failed_item cfg w m r q)) =
     map error_detail (run_errors r) @ [(q_task_id q, operation_name (q_operation q), m)]"
  by (simp_all add: sync_failed_item_def error_detail_def)

lemma foldl_sync_failed_item_account:
  "posted (foldl (sync_failed_item cfg w m) r batch) = posted r
   \<and> successCount (foldl (sync_failed_item cfg w m) r batch) = successCount r
   \<and> failCount (foldl (sync_failed_item cfg w m) r batch) = failCount r + length batch
   \<and> map error_detail (run_errors (foldl (sync_failed_item cfg w m) r batch)) =
       map error_detail (run_errors r) @
         map (\<lambda>q. (q_task_id q, operation_name (q_operation q), m)) batch"
  by (induction batch arbitrary: r) (simp_all add: sync_failed_item_account)

lemma sync_batch_account:
  fixes r batch w
  defines "request \<equiv> \<lparr>items = batch, client_timestamp = clock w (ticks r)\<rparr>"
  defines "outcome \<equiv> peer w (length (posted r)) request"
  shows "posted (sync_batch cfg w r batch) = posted r @ [request]"
    and "successCount (sync_batch cfg w r batch) = successCount r + spec_synced outcome"
    and "failCount (sync_batch cfg w r batch)
           = failCount r + length (spec_failures outcome batch)"
    and "map error_detail (run_errors (sync_batch cfg w r batch)) =
           map error_detail (run_errors r) @ spec_failures outcome batch"
  unfolding request_def outcome_def
  by (simp_all add: sync_batch_def Let_def spec_synced_def spec_failures_def
      foldl_sync_item_account foldl_sync_failed_item_account split: sum.splits)

lemma accounted_sync_batch:
  assumes "accounted w r"
  shows "accounted w (sync_batch cfg w r batch)"
proof -
  let ?req = "\<lparr>items = batch, client_timestamp = clock w (ticks r)\<rparr>"
  let ?r' = "sync_batch cfg w r batch"
  let ?n = "length (posted r)"
  have posted: "posted ?r' = posted r @ [?req]" by (rule sync_batch_account)
  have old: "outcome_of w ?r' k = outcome_of w r k" "items (posted ?r' ! k) = items (posted r ! k)"
    if "k < ?n" for k
    using that by (simp_all add: outcome_of_def posted nth_append)
  have new: "outcome_of w ?r' ?n = peer w ?n ?req" "items (posted ?r' ! ?n) = batch"
    by (simp_all add: outcome_of_def posted)
  have f: "map (\<lambda>k. spec_failures (outcome_of w ?r' k) (items (posted ?r' ! k))) [0..<?n]
         = map (\<lambda>k. spec_failures (outcome_of w r k) (items (posted r ! k))) [0..<?n]"
    by (rule map_cong) (simp_all add: old)
  have g: "map (\<lambda>k. spec_synced (outcome_of w ?r' k)) [0..<?n]
         = map (\<lambda>k. spec_synced (outcome_of w r k)) [0..<?n]"
    by (rule map_cong) (simp_all add: old)
  have len: "length (posted ?r') = Suc ?n" by (simp add: posted)
  from assms have a: "map error_detail (run_errors r) =
        concat (map (\<lambda>k. spec_failures (outcome_of w r k) (items (posted r ! k))) [0..<?n])"
    and b: "failCount r = length (run_errors r)"
    and c: "successCount r = sum_list (map (\<lambda>k. spec_synced (outcome_of w r k)) [0..<?n])"
    by (simp_all add: accounted_def)
  have e: "map error_detail (run_errors ?r') =
      map error_detail (run_errors r) @ spec_failures (peer w ?n ?req) batch"
    by (rule sync_batch_account)
  have "map error_detail (run_errors ?r') =
        concat (map (\<lambda>k. spec_failures (outcome_of w ?r' k) (items (posted ?r' ! k)))
          [0..<length (posted ?r')])"
    unfolding len by (simp add: e a f new)
  moreover have "failCount ?r' = length (run_errors ?r')"
  proof -
    have "length (run_errors ?r') = length (map error_detail (run_errors ?r'))" by simp
    also have "\<dots> = length (run_errors r) + length (spec_failures (peer w ?n ?req) batch)"
      unfolding e by simp
    finally show ?thesis by (simp add: sync_batch_account b)
  qed
  moreover have "successCount ?r' =
      sum_list (map (\<lambda>k. spec_synced (outcome_of w ?r' k)) [0..<length (posted ?r')])"
    unfolding len by (simp add: sync_batch_account c g new)
  ultimately show ?thesis by (simp add: accounted_def)
qed

lemma foldl_sync_batch_account:
  assumes "accounted w r"
  shows "accounted w (foldl (sync_batch cfg w) r batches)
     \<and> map items (posted (foldl (sync_batch cfg w) r batches)) = map items (posted r) @ batches"
  using assms
proof (induction batches arbitrary: r)
  case Nil
  then show ?case by simp
next
  case (Cons batch batches)
  from Cons.prems have "accounted w (sync_batch cfg w r batch)" by (rule accounted_sync_batch)
  from Cons.IH [OF this] show ?case by (simp add: sync_batch_account)
qed

text \<open>
  C5, as the code has it. With a positive batch size, for every queue and whatever the
  peer does at each post, \<^verbatim>\<open>sync()\<close> returns. It posts every batch of the partition of the queue, in order,
  also after a post that threw; its \<^verbatim>\<open>success\<close> flag is true exactly when no batch had a
  failure; and its counts and its error list are those of all the batches: an error
  entry with record id, operation and message for each entry of a batch whose post threw
  and for each item that was not synced.
\<close>

theorem sync_processes_all_batches:
  assumes "batchSize cfg = Some b" and "0 < b"
  shows "\<exists>res r. sync cfg w s = Some (res, r)
     \<and> map items (posted r) = spec_batches (nat b) (select_sync_queue s)
     \<and> success res = (failed_items res = 0)
     \<and> success res =
         (\<forall>k<length (posted r). spec_failures (outcome_of w r k) (items (posted r ! k)) = [])
     \<and> failed_items res = length (errors res)
     \<and> map error_detail (errors res) =
         concat (map (\<lambda>k. spec_failures (outcome_of w r k) (items (posted r ! k)))
           [0..<length (posted r)])
     \<and> synced_items res =
         sum_list (map (\<lambda>k. spec_synced (outcome_of w r k)) [0..<length (posted r)])"
proof -
  let ?init = "\<lparr>db = s, ticks = 0, posted = [], successCount = 0, failCount = 0, run_errors = []\<rparr>"
  let ?r = "foldl (sync_batch cfg w) ?init (spec_batches (nat b) (select_sync_queue s))"
  let ?res = "\<lparr>success = (failCount ?r = 0), synced_items = successCount ?r,
     failed_items = failCount ?r, errors = run_errors ?r\<rparr>"
  have loop: "sync_loop cfg w (select_sync_queue s) 0 ?init = Some ?r"
    using sync_loop_all_batches
      [OF assms, where i = 0 and w = w and queueItems = "select_sync_queue s" and r = ?init]
    by simp
  then have run: "sync cfg w s = Some (?res, ?r)" by (simp add: sync_def sync_after_read_def Let_def)
  have "accounted w ?init" by (simp add: accounted_def)
  from foldl_sync_batch_account [OF this, of cfg "spec_batches (nat b) (select_sync_queue s)"]
  have acc: "accounted w ?r"
    and sent: "map items (posted ?r) = spec_batches (nat b) (select_sync_queue s)"
    by simp_all
  from acc have e: "map error_detail (run_errors ?r) =
        concat (map (\<lambda>k. spec_failures (outcome_of w ?r k) (items (posted ?r ! k)))
          [0..<length (posted ?r)])"
    and f: "failCount ?r = length (run_errors ?r)"
    and g: "successCount ?r =
          sum_list (map (\<lambda>k. spec_synced (outcome_of w ?r k)) [0..<length (posted ?r)])"
    by (simp_all add: accounted_def)
  have "(failCount ?r = 0) = (map error_detail (run_errors ?r) = [])"
    using f by simp
  also have "\<dots> =
      (\<forall>k<length (posted ?r). spec_failures (outcome_of w ?r k) (items (posted ?r ! k)) = [])"
    unfolding e by auto
  finally have h: "(failCount ?r = 0) =
      (\<forall>k<length (posted ?r). spec_failures (outcome_of w ?r k) (items (posted ?r ! k)) = [])" .
  show ?thesis
    apply (rule exI [of _ ?res], rule exI [of _ ?r])
    using run sent e f g h by simp
qed

lemma select_two_entries: "select_sync_queue two_entries = [entry_create, entry_update]"
  by (simp add: select_sync_queue_def two_entries_def entry_create_def entry_update_def)

lemma spec_batches_two: "spec_batches (Suc 0) [x, y] = [[x], [y]]"
  by (simp add: spec_batches.simps)

lemma foldl_confirms_then_fails:
  "foldl (sync_batch one_per_batch confirms_then_fails) start_of_run
        [[entry_create], [entry_update]] = end_of_run"
proof -
  have "maxRetries one_per_batch = Some 3"
    by (simp add: one_per_batch_def default_config_values)
  then show ?thesis
    by (simp add: start_of_run_def end_of_run_def sync_batch_def sync_item_def
        sync_failed_item_def run_updateSyncStatus_def updateSyncStatus_def handleSyncError_def
        js_greater_def
        update_tasks_def delete_sync_queue_def update_sync_queue_def serverData_of_def
        confirms_then_fails_def confirmed_item_def two_entries_def example_row_def
        entry_create_def entry_update_def operation_name_def no_fields_def Let_def)
qed

lemma sync_confirms_then_fails:
  "sync one_per_batch confirms_then_fails two_entries =
     Some (\<lparr>success = False, synced_items = 1, failed_items = 1,
             errors = [\<lparr>e_task_id = ''t1'', e_operation = ''update'', e_error = ''ECONNRESET'',
                        e_timestamp = 5003\<rparr>]\<rparr>,
           end_of_run)"
proof -
  have bs: "batchSize one_per_batch = Some 1" by (simp add: one_per_batch_def)
  have "sync_loop one_per_batch confirms_then_fails [entry_create, entry_update] 0 start_of_run =
      Some (foldl (sync_batch one_per_batch confirms_then_fails) start_of_run
        [[entry_create], [entry_update]])"
    using sync_loop_all_batches [OF bs, where i = 0] by (simp add: spec_batches_two)
  then have "sync_loop one_per_batch confirms_then_fails (select_sync_queue two_entries) 0
      \<lparr>db = two_entries, ticks = 0, posted = [], successCount = 0, failCount = 0,
        run_errors = []\<rparr> = Some end_of_run"
    by (simp only: foldl_confirms_then_fails [unfolded start_of_run_def] select_two_entries
        start_of_run_def)
  then show ?thesis
    by (simp add: sync_def sync_after_read_def Let_def) (simp add: end_of_run_def)
qed

theorem sync_processes_all_batches_witness:
  "batchSize one_per_batch = Some 1
   \<and> sync one_per_batch confirms_then_fails two_entries \<noteq> None
   \<and> map_option (map items \<circ> posted \<circ> snd) (sync one_per_batch confirms_then_fails two_entries)
       = Some [[entry_create], [entry_update]]
   \<and> map_option (success \<circ> fst) (sync one_per_batch confirms_then_fails two_entries)
       = Some False
   \<and> map_option (map error_detail \<circ> errors \<circ> fst)
         (sync one_per_batch confirms_then_fails two_entries)
       = Some [(''t1'', ''update'', ''ECONNRESET'')]"
proof -
  have bs: "batchSize one_per_batch = Some 1" by (simp add: one_per_batch_def)
  from sync_processes_all_batches [OF bs, of confirms_then_fails two_entries]
  obtain res r where run: "sync one_per_batch confirms_then_fails two_entries = Some (res, r)"
    and sent: "map items (posted r) = spec_batches (nat 1) (select_sync_queue two_entries)"
    and flag: "success res = (failed_items res = 0)"
    by auto
  from run have res: "res = \<lparr>success = False, synced_items = 1, failed_items = 1,
             errors = [\<lparr>e_task_id = ''t1'', e_operation = ''update'', e_error = ''ECONNRESET'',
                        e_timestamp = 5003\<rparr>]\<rparr>"
    by (simp add: sync_confirms_then_fails)
  from sent have "map items (posted r) = [[entry_create], [entry_update]]"
    by (simp add: select_two_entries spec_batches_two)
  moreover from flag res have "success res = False" by simp
  moreover from res have "map error_detail (errors res) = [(''t1'', ''update'', ''ECONNRESET'')]"
    by (simp add: error_detail_def)
  ultimately show ?thesis using bs run by simp
qed

subsection \<open>The outcome of one item\<close>

lemma sync_item_synced:
  assumes "item_synced item"
  shows "sync_item w r item =
     r\<lparr>db := updateSyncStatus (clock w (ticks r)) (client_id item) Synced
              (Some (serverData_of item)) (db r),
       ticks := Suc (ticks r), successCount := successCount r + 1\<rparr>"
  using assms by (auto simp: sync_item_def item_synced_def run_updateSyncStatus_def)

lemma sync_item_not_synced:
  assumes "\<not> item_synced item"
  shows "sync_item w r item =
     r\<lparr>db := updateSyncStatus (clock w (Suc (ticks r))) (client_id item) Error None (db r),
       ticks := Suc (Suc (ticks r)), failCount := failCount r + 1,
       run_errors := run_errors r @
         [\<lparr>e_task_id = client_id item, e_operation = ''sync'',
           e_error = or_else (error item) ''Unknown sync error'',
           e_timestamp = clock w (ticks r)\<rparr>]\<rparr>"
  using assms by (auto simp: sync_item_def item_synced_def run_updateSyncStatus_def)

text \<open>
  C1, as the code has it. For an item whose outcome is \<^verbatim>\<open>success\<close>, or \<^verbatim>\<open>conflict\<close> with
  resolved data, every record whose id is the item's \<^verbatim>\<open>client_id\<close> is marked \<^verbatim>\<open>synced\<close>, gets
  the remote identifier when it is not empty (the item's \<^verbatim>\<open>server_id\<close>, unless the resolved
  data carry one) and gets \<^verbatim>\<open>last_synced_at\<close> set to the reading of the clock; and every
  Mutation Log entry of that record is deleted, the entries of the other records staying
  in the queue unchanged and in order.
\<close>

theorem synced_item_deletes_entries_of_record:
  assumes "status item = StatusSuccess
           \<or> (status item = StatusConflict \<and> resolved_data item \<noteq> None)"
  shows "tasks (db (sync_item w r item)) =
           map (\<lambda>row. if r_id row = client_id item
                       then row\<lparr>r_sync_status := Synced,
                                r_server_id :=
                                  (case p_server_id (serverData_of item) of
                                     None \<Rightarrow> r_server_id row
                                   | Some x \<Rightarrow> if x = [] then r_server_id row else Some x),
                                r_last_synced_at := Some (clock w (ticks r))\<rparr>
                       else row)
             (tasks (db r))
     \<and> ((\<forall>d. resolved_data item = Some d \<longrightarrow> p_server_id d = None) \<longrightarrow>
            p_server_id (serverData_of item) = server_id item)
     \<and> sync_queue (db (sync_item w r item)) =
           filter (\<lambda>q. q_task_id q \<noteq> client_id item) (sync_queue (db r))
     \<and> successCount (sync_item w r item) = successCount r + 1
     \<and> failCount (sync_item w r item) = failCount r
     \<and> run_errors (sync_item w r item) = run_errors r"
proof -
  from assms have "item_synced item" by (simp add: item_synced_def)
  note run = sync_item_synced [OF this]
  have "tasks (db (sync_item w r item)) =
           map (\<lambda>row. if r_id row = client_id item
                       then row\<lparr>r_sync_status := Synced,
                                r_server_id :=
                                  (case p_server_id (serverData_of item) of
                                     None \<Rightarrow> r_server_id row
                                   | Some x \<Rightarrow> if x = [] then r_server_id row else Some x),
                                r_last_synced_at := Some (clock w (ticks r))\<rparr>
                       else row)
             (tasks (db r))"
    unfolding run
    by (auto simp: updateSyncStatus_def update_tasks_def delete_sync_queue_def Let_def
        split: option.splits)
  moreover have "(\<forall>d. resolved_data item = Some d \<longrightarrow> p_server_id d = None) \<longrightarrow>
            p_server_id (serverData_of item) = server_id item"
    by (auto simp: serverData_of_def no_fields_def split: option.splits)
  moreover have "sync_queue (db (sync_item w r item)) =
           filter (\<lambda>q. q_task_id q \<noteq> client_id item) (sync_queue (db r))"
    unfolding run
    by (simp add: updateSyncStatus_def update_tasks_def delete_sync_queue_def Let_def)
  ultimately show ?thesis by (simp add: run)
qed

theorem synced_item_deletes_entries_of_record_witness:
  "status confirmed_item = StatusSuccess
   \<and> tasks (db (sync_item confirms_then_fails start_of_run confirmed_item)) =
       [example_row\<lparr>r_sync_status := Synced, r_server_id := Some ''srv-1'',
                     r_last_synced_at := Some 5000\<rparr>]
   \<and> sync_queue (db (sync_item confirms_then_fails start_of_run confirmed_item)) = []
   \<and> successCount (sync_item confirms_then_fails start_of_run confirmed_item) = 1"
proof -
  have a: "status confirmed_item = StatusSuccess" by (simp add: confirmed_item_def)
  then have b: "status confirmed_item = StatusSuccess
           \<or> (status confirmed_item = StatusConflict \<and> resolved_data confirmed_item \<noteq> None)"
    by simp
  from synced_item_deletes_entries_of_record [OF b, of confirms_then_fails start_of_run] a
  show ?thesis
    by (simp add: start_of_run_def two_entries_def confirms_then_fails_def confirmed_item_def
        serverData_of_def no_fields_def example_row_def entry_create_def entry_update_def)
qed

text \<open>
  C1 as stated fails. With one entry in each batch, the peer confirms the \<^verbatim>\<open>create\<close> entry
  of a record and the post of the later \<^verbatim>\<open>update\<close> entry of the same record throws: the
  \<^verbatim>\<open>update\<close> entry was deleted with the first, and the queue is empty after the run.
\<close>

theorem success_deletes_unconfirmed_entry:
  "sync_queue (db start_of_run) = [entry_create, entry_update]
   \<and> sync_queue (db (sync_item confirms_then_fails start_of_run confirmed_item)) = []
   \<and> map_option (map items \<circ> posted \<circ> snd)
        (sync one_per_batch confirms_then_fails two_entries)
       = Some [[entry_create], [entry_update]]
   \<and> peer confirms_then_fails 1 \<lparr>items = [entry_update], client_timestamp = 5002\<rparr>
       = Inl ''ECONNRESET''
   \<and> map_option (sync_queue \<circ> db \<circ> snd)
        (sync one_per_batch confirms_then_fails two_entries) = Some []"
  by (simp add: sync_confirms_then_fails)
     (simp add: end_of_run_def start_of_run_def two_entries_def sync_item_def
       run_updateSyncStatus_def updateSyncStatus_def update_tasks_def delete_sync_queue_def
       confirms_then_fails_def confirmed_item_def entry_create_def entry_update_def Let_def)

text \<open>
  C6, as the code has it. For every other outcome, every record whose id is the item's
  \<^verbatim>\<open>client_id\<close> is marked \<^verbatim>\<open>error\<close> and gets \<^verbatim>\<open>last_synced_at\<close> set to the reading of the clock,
  nothing else of it changing; the Mutation Log is left as it is, and one error detail
  with the record id, the operation \<^verbatim>\<open>sync\<close>, the message and the instant is recorded.
\<close>

theorem failed_item_marks_error:
  assumes "\<not> (status item = StatusSuccess
              \<or> (status item = StatusConflict \<and> resolved_data item \<noteq> None))"
  shows "tasks (db (sync_item w r item)) =
           map (\<lambda>row. if r_id row = client_id item
                       then row\<lparr>r_sync_status := Error,
                                r_last_synced_at := Some (clock w (Suc (ticks r)))\<rparr>
                       else row)
             (tasks (db r))
     \<and> sync_queue (db (sync_item w r item)) = sync_queue (db r)
     \<and> run_errors (sync_item w r item) =
         run_errors r @
           [\<lparr>e_task_id = client_id item, e_operation = ''sync'',
             e_error = or_else (error item) ''Unknown sync error'',
             e_timestamp = clock w (ticks r)\<rparr>]
     \<and> failCount (sync_item w r item) = failCount r + 1
     \<and> successCount (sync_item w r item) = successCount r"
proof -
  from assms have "\<not> item_synced item" by (simp add: item_synced_def)
  note run = sync_item_not_synced [OF this]
  show ?thesis
    unfolding run by (simp add: updateSyncStatus_def update_tasks_def Let_def)
qed

theorem failed_item_marks_error_witness:
  "\<not> (status rejected_item = StatusSuccess
        \<or> (status rejected_item = StatusConflict \<and> resolved_data rejected_item \<noteq> None))
   \<and> tasks (db (sync_item confirms_then_fails start_of_run rejected_item)) =
       [example_row\<lparr>r_sync_status := Error, r_last_synced_at := Some 5001\<rparr>]
   \<and> sync_queue (db (sync_item confirms_then_fails start_of_run rejected_item))
       = [entry_create, entry_update]
   \<and> run_errors (sync_item confirms_then_fails start_of_run rejected_item) =
       [\<lparr>e_task_id = ''t1'', e_operation = ''sync'', e_error = ''validation failed'',
         e_timestamp = 5000\<rparr>]"
proof -
  have a: "\<not> (status rejected_item = StatusSuccess
        \<or> (status rejected_item = StatusConflict \<and> resolved_data rejected_item \<noteq> None))"
    by (simp add: rejected_item_def)
  from failed_item_marks_error [OF a, of confirms_then_fails start_of_run] a
  show ?thesis
    by (simp add: start_of_run_def two_entries_def confirms_then_fails_def rejected_item_def
        or_else_def example_row_def)
qed

text \<open>
  C6 as stated fails: the error outcome sets \<^verbatim>\<open>last_synced_at\<close> of the record, which had
  none.
\<close>

theorem error_outcome_sets_last_synced_at:
  "map r_last_synced_at (tasks (db start_of_run)) = [None]
   \<and> status rejected_item = StatusError
   \<and> map r_last_synced_at (tasks (db (sync_item confirms_then_fails start_of_run rejected_item)))
       = [Some 5001]"
  by (simp add: start_of_run_def two_entries_def example_row_def rejected_item_def
      sync_item_def run_updateSyncStatus_def updateSyncStatus_def update_tasks_def
      confirms_then_fails_def Let_def)

subsection \<open>A batch whose post threw\<close>















subsection \<open>Runs that overlap\<close>








subsection \<open>A batch size that is not positive\<close>

text \<open>
  The loop over the batches advances by the batch size: with \<^verbatim>\<open>SYNC_BATCH_SIZE\<close> parsed to
  0 or to a negative number and an entry in the queue, \<^verbatim>\<open>sync()\<close> does not return. The
  properties of a run are stated for a positive batch size.
\<close>

lemma sync_loop_never_returns:
  assumes "batchSize cfg = Some b" and "b \<le> 0"
  shows "i < int (length queueItems) \<Longrightarrow> sync_loop cfg w queueItems i r = None"
proof -
  have "\<not> (batchSize cfg' = Some b \<and> i' < int (length items'))"
    if "sync_loop cfg' w' items' i' r' = Some y" for cfg' w' items' i' r' y
  proof (rule sync_loop.raw_induct
      [where P = "\<lambda>c w' xs k r' y. \<not> (batchSize c = Some b \<and> k < int (length xs))",
        OF _ that])
    fix f c v xs k r0 y0
    assume IH: "\<And>c v xs k r0 y0. f c v xs k r0 = Some y0 \<Longrightarrow>
        \<not> (batchSize c = Some b \<and> k < int (length xs))"
      and body: "(if k < int (length xs)
          then let batch = js_slice xs k (map_option ((+) k) (batchSize c));
                   r' = sync_batch c v r0 batch
               in case batchSize c of None \<Rightarrow> Some r' | Some b \<Rightarrow> f c v xs (k + b) r'
          else Some r0) = Some y0"
    show "\<not> (batchSize c = Some b \<and> k < int (length xs))"
    proof
      assume a: "batchSize c = Some b \<and> k < int (length xs)"
      with body obtain r'' where "f c v xs (k + b) r'' = Some y0"
        by (auto simp: Let_def)
      from IH [OF this] a assms(2) show False by simp
    qed
  qed
  then show "i < int (length queueItems) \<Longrightarrow> sync_loop cfg w queueItems i r = None"
    using assms(1) by (cases "sync_loop cfg w queueItems i r") auto
qed

lemma sync_never_returns:
  assumes "batchSize cfg = Some b" and "b \<le> 0" and "sync_queue s \<noteq> []"
  shows "sync cfg w s = None"
proof -
  from assms(3) have "0 < int (length (select_sync_queue s))"
    by (simp add: select_sync_queue_def)
  from sync_loop_never_returns [OF assms(1,2) this]
  show ?thesis by (simp add: sync_def sync_after_read_def)
qed

text \<open>
  C5 as stated fails. With \<^verbatim>\<open>SYNC_BATCH_SIZE\<close> set to \<^verbatim>\<open>0\<close> and two entries in the queue,
  \<^verbatim>\<open>sync()\<close> does not return. With \<^verbatim>\<open>SYNC_BATCH_SIZE\<close> set to a word the batch size is NaN:
  the run posts one empty batch and returns \<^verbatim>\<open>success\<close> with nothing synced, the two
  entries still in the queue and never posted.
\<close>

theorem batch_size_zero_never_returns:
  "batchSize zero_batch_size = Some 0
   \<and> sync zero_batch_size confirms_each two_entries = None
   \<and> batchSize unparsable_batch_size = None
   \<and> map_option (map items \<circ> posted \<circ> snd)
        (sync unparsable_batch_size confirms_each two_entries) = Some [[]]
   \<and> map_option (success \<circ> fst)
        (sync unparsable_batch_size confirms_each two_entries) = Some True
   \<and> map_option (synced_items \<circ> fst)
        (sync unparsable_batch_size confirms_each two_entries) = Some 0
   \<and> map_option (sync_queue \<circ> db \<circ> snd)
        (sync unparsable_batch_size confirms_each two_entries)
       = Some [entry_create, entry_update]"
proof -
  have zero: "batchSize zero_batch_size = Some 0"
    by (simp add: zero_batch_size_def SyncService_def or_else_def parseInt_ascii_def
        is_space_def is_digit_def digits_value_def)
  have nan: "batchSize unparsable_batch_size = None"
    by (simp add: unparsable_batch_size_def SyncService_def or_else_def parseInt_ascii_def
        is_space_def is_digit_def)
  have queue: "sync_queue two_entries \<noteq> []" by (simp add: two_entries_def)
  have never: "sync zero_batch_size confirms_each two_entries = None"
    by (rule sync_never_returns [OF zero _ queue]) simp
  have "sync_loop unparsable_batch_size confirms_each [entry_create, entry_update] 0
      \<lparr>db = two_entries, ticks = 0, posted = [], successCount = 0, failCount = 0,
        run_errors = []\<rparr> =
      Some \<lparr>db = two_entries, ticks = 1,
             posted = [\<lparr>items = [], client_timestamp = 5000\<rparr>],
             successCount = 0, failCount = 0, run_errors = []\<rparr>"
    by (subst sync_loop.simps)
       (simp add: nan js_slice_def sync_batch_def confirms_each_def Let_def)
  then have "sync unparsable_batch_size confirms_each two_entries =
      Some (\<lparr>success = True, synced_items = 0, failed_items = 0, errors = []\<rparr>,
            \<lparr>db = two_entries, ticks = 1,
              posted = [\<lparr>items = [], client_timestamp = 5000\<rparr>],
              successCount = 0, failCount = 0, run_errors = []\<rparr>)"
    by (simp add: sync_def sync_after_read_def select_two_entries)
  with zero nan never show ?thesis by (simp add: two_entries_def)
qed

end
